theory Spec2Isabelle
  imports Complex_Main
begin

section \<open>Actor and critic networks of r\_actor\_critic.py\<close>

text \<open>
  The module composes an encoder, an optional recurrent unit and a head. The encoder
  (\<open>MLPBase\<close>, the convolution stack), the recurrent cells (\<open>RIMCell\<close>, \<open>RNNLayer\<close>), the
  action heads (\<open>mpe_act\<close>, \<open>multiwalker_act\<close>) and the value heads (\<open>PopArt\<close>,
  \<open>nn.Linear\<close>) are imported from other modules; here they are parameters: a constructor
  is a function that returns the constructed callable or an error, a callable is a function
  on tensors that returns its result or an error. What is modelled in full is the code of
  \<open>R_Actor\<close> and \<open>R_Critic\<close> themselves: the flag dispatch, the slicing and reshaping of the
  hidden state, the attribute lookups and the arguments handed to the collaborators.
\<close>

subsection \<open>Exceptions\<close>

datatype error =
    ZeroDivisionError
  | AttributeError
  | IndexError
  | RuntimeError
  | OtherError string

definition bind_err :: "error + 'a \<Rightarrow> ('a \<Rightarrow> error + 'b) \<Rightarrow> error + 'b" where
  "bind_err m f = (case m of Inl e \<Rightarrow> Inl e | Inr x \<Rightarrow> f x)"

definition floordiv :: "int \<Rightarrow> int \<Rightarrow> error + int" where
  \<comment> \<open>Python's \<open>a // b\<close> on ints: floor division, \<open>ZeroDivisionError\<close> when \<open>b = 0\<close>.\<close>
  "floordiv a b = (if b = 0 then Inl ZeroDivisionError else Inr (a div b))"

subsection \<open>Tensors\<close>

text \<open>
  A tensor is its shape and its elements in row-major order; its layout in memory (the
  strides) is not part of the model. \<open>.view\<close> is modelled on the sizes alone. The sizes
  decide it for a tensor of two dimensions whose dimension 1 is split, whatever its
  layout, for a tensor laid out in row-major order and for a slice \<open>[:, :k]\<close> of one: the
  views taken by the code keep dimension 0 and regroup the dimensions after it. A tensor of
  three or more dimensions in another layout, which \<open>.view\<close> can refuse, is outside the
  model, and what a collaborator returns is taken in row-major order.
\<close>

record 'a tensor =
  shape :: "nat list"
  data :: "'a list"

definition numel :: "'a tensor \<Rightarrow> nat" where
  "numel t = prod_list (shape t)"

definition well_formed :: "'a tensor \<Rightarrow> bool" where
  "well_formed t = (length (data t) = numel t)"

definition size0 :: "'a tensor \<Rightarrow> error + nat" where
  \<comment> \<open>\<open>t.size(0)\<close>\<close>
  "size0 t = (case shape t of [] \<Rightarrow> Inl IndexError | b # rest \<Rightarrow> Inr b)"

definition slice_stop :: "int \<Rightarrow> nat \<Rightarrow> nat" where
  \<comment> \<open>the length of \<open>xs[:k]\<close> for a sequence of length \<open>n\<close>: a negative stop counts from the end\<close>
  "slice_stop k n = (if k < 0 then nat (int n + k) else min (nat k) n)"

fun take_rows :: "nat \<Rightarrow> nat \<Rightarrow> nat \<Rightarrow> 'a list \<Rightarrow> 'a list" where
  "take_rows 0 w k xs = []"
| "take_rows (Suc b) w k xs = take k xs @ take_rows b w k (drop w xs)"

definition index_cols :: "'a tensor \<Rightarrow> int \<Rightarrow> error + 'a tensor" where
  \<comment> \<open>\<open>t[:, :k]\<close>: every row of dimension 0 keeps the first entries of dimension 1\<close>
  "index_cols t k =
     (case shape t of
        b # d # rest \<Rightarrow>
          (let d' = slice_stop k d; r = prod_list rest
           in Inr \<lparr>shape = b # d' # rest, data = take_rows b (d * r) (d' * r) (data t)\<rparr>)
      | _ \<Rightarrow> Inl IndexError)"

definition view_infer :: "'a tensor \<Rightarrow> int list \<Rightarrow> error + 'a tensor" where
  \<comment> \<open>\<open>t.view(d1, ..., dn, -1)\<close>: a negative \<open>di\<close> is a second inferred or an invalid
      dimension; a zero product leaves \<open>-1\<close> ambiguous or the size unmatched; all raise.
      Sizes only: no check of the strides, and no bound of 64 bits on a size.\<close>
  "view_infer t ds =
     (if list_ex (\<lambda>d. d < 0) ds then Inl RuntimeError
      else let p = prod_list (map nat ds)
           in if p = 0 \<or> numel t mod p \<noteq> 0 then Inl RuntimeError
              else Inr \<lparr>shape = map nat ds @ [numel t div p], data = data t\<rparr>)"

definition unsqueeze1 :: "'a tensor \<Rightarrow> error + 'a tensor" where
  \<comment> \<open>\<open>t.unsqueeze(1)\<close>\<close>
  "unsqueeze1 t =
     (case shape t of
        [] \<Rightarrow> Inl IndexError
      | b # rest \<Rightarrow> Inr (t\<lparr>shape := b # 1 # rest\<rparr>))"

subsection \<open>Collaborators and configuration\<close>

type_synonym 'a module_fn = "'a tensor \<Rightarrow> error + 'a tensor"

type_synonym 'a rnn_fn =
  "'a tensor \<Rightarrow> 'a tensor \<Rightarrow> 'a tensor \<Rightarrow> error + ('a tensor \<times> 'a tensor)"

text \<open>
  \<open>RIMCell.forward(x, hs, cs)\<close> and \<open>RNNLayer.forward(x, hxs, masks)\<close> are both called as
  \<open>self.rnn(a, b, c)\<close> and both results are unpacked into two tensors, so one type serves.
\<close>

record 'a act_layer =
  act_forward ::
    "'a tensor \<Rightarrow> 'a tensor option \<Rightarrow> bool \<Rightarrow> error + ('a tensor \<times> 'a tensor)"
  act_evaluate_actions ::
    "'a tensor \<Rightarrow> 'a tensor \<Rightarrow> 'a tensor option \<Rightarrow> 'a tensor option
      \<Rightarrow> error + ('a tensor \<times> 'a tensor)"

record args =
  hidden_size :: int
  env_name :: string
  gain :: real
  use_orthogonal :: bool
  use_policy_active_masks :: bool
  use_naive_recurrent_policy :: bool
  use_recurrent_policy :: bool
  use_rims_policy_LSTM :: bool
  use_rims_policy_GRU :: bool
  use_lstm_policy :: bool
  recurrent_N :: int
  num_units :: int
  use_popart :: bool

record ('a, 'sp) collaborators =
  get_shape_from_obs_space :: "'sp \<Rightarrow> error + nat list"
  base1 :: "'a module_fn"
  MLPBase :: "args \<Rightarrow> nat list \<Rightarrow> error + 'a module_fn"
  RIMCell :: "int \<Rightarrow> int \<Rightarrow> int \<Rightarrow> int \<Rightarrow> string \<Rightarrow> int \<Rightarrow> int \<Rightarrow> error + 'a rnn_fn"
  RNNLayer :: "int \<Rightarrow> int \<Rightarrow> int \<Rightarrow> bool \<Rightarrow> error + 'a rnn_fn"
  mpe_act :: "'sp \<Rightarrow> int \<Rightarrow> bool \<Rightarrow> real \<Rightarrow> error + 'a act_layer"
  multiwalker_act :: "'sp \<Rightarrow> int \<Rightarrow> bool \<Rightarrow> real \<Rightarrow> error + 'a act_layer"
  PopArt :: "int \<Rightarrow> int \<Rightarrow> error + 'a module_fn"
  nn_Linear :: "int \<Rightarrow> int \<Rightarrow> error + 'a module_fn"

text \<open>
  \<open>base1\<close> is the \<open>nn.Sequential\<close> convolution stack, whose construction takes constants
  only. \<open>RIMCell\<close> takes \<open>input_size\<close>, \<open>hidden_size\<close>, \<open>num_units\<close>, \<open>k\<close>, \<open>rnn_cell\<close>,
  \<open>input_value_size\<close> and \<open>comm_value_size\<close>, in this order; its device argument is
  left out.
\<close>

subsection \<open>The fields shared by \<open>R_Actor\<close> and \<open>R_Critic\<close>\<close>

record 'a recurrent_module =
  self_hidden_size :: int
  self_use_orthogonal :: bool
  self_use_naive_recurrent_policy :: bool
  self_use_recurrent_policy :: bool
  self_use_rims_policy_LSTM :: bool
  self_use_rims_policy_GRU :: bool
  self_use_lstm_policy :: bool
  self_recurrent_N :: int
  self_num_units :: int
  self_tpdv :: "'a \<Rightarrow> 'a"
  self_base :: "'a module_fn"
  self_rnn :: "'a rnn_fn option"

text \<open>
  \<open>self_tpdv\<close> is the element conversion of \<open>check(x).to(**self.tpdv)\<close>: to float32, on
  the device. \<open>self_rnn = None\<close> is the module without an \<open>rnn\<close> attribute.
\<close>

definition to_tpdv :: "('a, 'z) recurrent_module_scheme \<Rightarrow> 'a tensor \<Rightarrow> 'a tensor" where
  "to_tpdv net t = t\<lparr>data := map (self_tpdv net) (data t)\<rparr>"

definition get_rnn :: "('a, 'z) recurrent_module_scheme \<Rightarrow> error + 'a rnn_fn" where
  \<comment> \<open>the attribute lookup \<open>self.rnn\<close>\<close>
  "get_rnn net = (case self_rnn net of None \<Rightarrow> Inl AttributeError | Some f \<Rightarrow> Inr f)"

subsection \<open>The recurrent stage of \<open>forward\<close> and \<open>evaluate_actions\<close>\<close>

text \<open>
  Lines 109 to 124 of \<open>R_Actor.forward\<close>, 161 to 176 of \<open>R_Actor.evaluate_actions\<close> and
  276 to 291 of \<open>R_Critic.forward\<close> are the same statements up to the name of the feature
  variable. \<open>rims_inputs\<close> is the part before the call of the cell: the two slices, the two
  views and the unsqueezed features. The unused \<open>half = self.hidden_size // 2\<close> cannot raise.
\<close>

definition rims_inputs ::
  "('a, 'z) recurrent_module_scheme \<Rightarrow> 'a tensor \<Rightarrow> 'a tensor
    \<Rightarrow> error + ('a tensor \<times> 'a tensor \<times> 'a tensor)" where
  "rims_inputs net features rnn_states =
     bind_err (index_cols rnn_states (self_hidden_size net)) (\<lambda>hidden0.
     bind_err (index_cols rnn_states (self_hidden_size net)) (\<lambda>hidden1.
     bind_err (size0 hidden0) (\<lambda>b0.
     bind_err (view_infer hidden0 [int b0, self_num_units net]) (\<lambda>hidden0.
     bind_err (size0 hidden1) (\<lambda>b1.
     bind_err (view_infer hidden0 [int b1, self_num_units net]) (\<lambda>hidden1.
     bind_err (unsqueeze1 features) (\<lambda>features.
     Inr (features, hidden0, hidden1))))))))"

definition rims_outputs ::
  "'a tensor \<times> 'a tensor \<Rightarrow> error + ('a tensor \<times> 'a tensor)" where
  "rims_outputs hidden =
     bind_err (size0 (fst hidden)) (\<lambda>b0.
     bind_err (view_infer (fst hidden) [int b0]) (\<lambda>features.
     bind_err (size0 (snd hidden)) (\<lambda>b1.
     bind_err (view_infer (snd hidden) [int b1, 1]) (\<lambda>rnn_states.
     Inr (features, rnn_states)))))"

definition rims_branch ::
  "('a, 'z) recurrent_module_scheme \<Rightarrow> 'a tensor \<Rightarrow> 'a tensor
    \<Rightarrow> error + ('a tensor \<times> 'a tensor)" where
  "rims_branch net features rnn_states =
     bind_err (rims_inputs net features rnn_states) (\<lambda>(features, hidden0, hidden1).
     bind_err (get_rnn net) (\<lambda>rnn.
     bind_err (rnn features hidden0 hidden1) rims_outputs))"

definition recurrent_stage ::
  "('a, 'z) recurrent_module_scheme \<Rightarrow> 'a tensor \<Rightarrow> 'a tensor \<Rightarrow> 'a tensor
    \<Rightarrow> error + ('a tensor \<times> 'a tensor)" where
  "recurrent_stage net features rnn_states masks =
     (if self_use_naive_recurrent_policy net \<or> self_use_recurrent_policy net then
        if self_use_rims_policy_LSTM net \<or> self_use_rims_policy_GRU net then
          rims_branch net features rnn_states
        else if self_use_lstm_policy net then
          bind_err (get_rnn net) (\<lambda>rnn. rnn features rnn_states masks)
        else Inr (features, rnn_states)
      else Inr (features, rnn_states))"

definition rims_path :: "('a, 'z) recurrent_module_scheme \<Rightarrow> bool" where
  \<comment> \<open>the conditions of lines 109 and 110 together\<close>
  "rims_path net =
     ((self_use_naive_recurrent_policy net \<or> self_use_recurrent_policy net)
      \<and> (self_use_rims_policy_LSTM net \<or> self_use_rims_policy_GRU net))"


subsection \<open>Construction\<close>

text \<open>
  The constructors copy the configuration into fields, build the encoder, the recurrent cell
  and the head in this order, and stop at the first exception. \<open>print\<close> and
  \<open>self.to(device)\<close> are left out, as is the \<open>base\<close> class that \<open>R_Critic.__init__\<close> selects
  and never uses. In \<open>RIMCell(...)\<close> the quotient \<open>hidden_size // num_units\<close> is computed
  twice, for the unit size and for \<open>comm_value_size\<close>, before the constructor is called.
\<close>

definition build_rnn :: "('a, 'sp) collaborators \<Rightarrow> args \<Rightarrow> error + 'a rnn_fn option" where
  \<comment> \<open>lines 61 to 67 and 234 to 240: the \<open>rnn\<close> attribute, \<open>None\<close> when no branch assigns it\<close>
  "build_rnn c a =
     (if use_naive_recurrent_policy a \<or> use_recurrent_policy a then
        if use_rims_policy_LSTM a then
          bind_err (floordiv (hidden_size a) (num_units a)) (\<lambda>unit_size.
          bind_err (floordiv (hidden_size a) (num_units a)) (\<lambda>comm_value_size.
          bind_err (RIMCell c (hidden_size a) unit_size (num_units a) 1 ''LSTM'' 64
                      comm_value_size) (\<lambda>rnn.
          Inr (Some rnn))))
        else if use_rims_policy_GRU a then
          bind_err (floordiv (hidden_size a) (num_units a)) (\<lambda>unit_size.
          bind_err (floordiv (hidden_size a) (num_units a)) (\<lambda>comm_value_size.
          bind_err (RIMCell c (hidden_size a) unit_size (num_units a) 1 ''GRU'' 64
                      comm_value_size) (\<lambda>rnn.
          Inr (Some rnn))))
        else if use_lstm_policy a then
          bind_err (RNNLayer c (hidden_size a) (hidden_size a) (recurrent_N a)
                      (use_orthogonal a)) (\<lambda>rnn.
          Inr (Some rnn))
        else Inr None
      else Inr None)"

definition build_base ::
  "('a, 'sp) collaborators \<Rightarrow> args \<Rightarrow> nat list \<Rightarrow> error + 'a module_fn" where
  \<comment> \<open>\<open>self.base = base1 if len(obs_shape) == 3 else base2(args, obs_shape)\<close>\<close>
  "build_base c a obs_shape =
     (if length obs_shape = 3 then Inr (base1 c) else MLPBase c a obs_shape)"

definition build_act ::
  "('a, 'sp) collaborators \<Rightarrow> args \<Rightarrow> 'sp \<Rightarrow> error + 'a act_layer option" where
  \<comment> \<open>lines 69 to 72: the \<open>act\<close> attribute, \<open>None\<close> when no branch assigns it\<close>
  "build_act c a action_space =
     (if env_name a = ''MPE-simple.spread'' then
        bind_err (mpe_act c action_space (hidden_size a) (use_orthogonal a) (gain a))
          (\<lambda>act. Inr (Some act))
      else if env_name a = ''SISL-multiwalker'' then
        bind_err (multiwalker_act c action_space (hidden_size a) (use_orthogonal a) (gain a))
          (\<lambda>act. Inr (Some act))
      else Inr None)"

record 'a r_actor = "'a recurrent_module" +
  self_env_name :: string
  self_gain :: real
  self_use_policy_active_masks :: bool
  self_act :: "'a act_layer option"

definition R_Actor_init ::
  "('a, 'sp) collaborators \<Rightarrow> args \<Rightarrow> 'sp \<Rightarrow> 'sp \<Rightarrow> ('a \<Rightarrow> 'a) \<Rightarrow> error + 'a r_actor" where
  \<comment> \<open>\<open>device\<close> is given as the element conversion that \<open>self.tpdv\<close> stands for\<close>
  "R_Actor_init c a obs_space action_space device =
     bind_err (get_shape_from_obs_space c obs_space) (\<lambda>obs_shape.
     bind_err (build_base c a obs_shape) (\<lambda>base.
     bind_err (build_rnn c a) (\<lambda>rnn.
     bind_err (build_act c a action_space) (\<lambda>act.
     Inr \<lparr>self_hidden_size = hidden_size a,
          self_use_orthogonal = use_orthogonal a,
          self_use_naive_recurrent_policy = use_naive_recurrent_policy a,
          self_use_recurrent_policy = use_recurrent_policy a,
          self_use_rims_policy_LSTM = use_rims_policy_LSTM a,
          self_use_rims_policy_GRU = use_rims_policy_GRU a,
          self_use_lstm_policy = use_lstm_policy a,
          self_recurrent_N = recurrent_N a,
          self_num_units = num_units a,
          self_tpdv = device,
          self_base = base,
          self_rnn = rnn,
          self_env_name = env_name a,
          self_gain = gain a,
          self_use_policy_active_masks = use_policy_active_masks a,
          self_act = act\<rparr>))))"

record 'a r_critic = "'a recurrent_module" +
  self_use_popart :: bool
  self_v_out :: "'a module_fn"

definition build_v_out :: "('a, 'sp) collaborators \<Rightarrow> args \<Rightarrow> error + 'a module_fn" where
  \<comment> \<open>lines 247 to 250\<close>
  "build_v_out c a =
     (if use_popart a then PopArt c (hidden_size a) 1 else nn_Linear c (hidden_size a) 1)"

definition R_Critic_init ::
  "('a, 'sp) collaborators \<Rightarrow> args \<Rightarrow> 'sp \<Rightarrow> ('a \<Rightarrow> 'a) \<Rightarrow> error + 'a r_critic" where
  "R_Critic_init c a obs_space device =
     bind_err (get_shape_from_obs_space c obs_space) (\<lambda>obs_shape.
     bind_err (build_base c a obs_shape) (\<lambda>base.
     bind_err (build_rnn c a) (\<lambda>rnn.
     bind_err (build_v_out c a) (\<lambda>v_out.
     Inr \<lparr>self_hidden_size = hidden_size a,
          self_use_orthogonal = use_orthogonal a,
          self_use_naive_recurrent_policy = use_naive_recurrent_policy a,
          self_use_recurrent_policy = use_recurrent_policy a,
          self_use_rims_policy_LSTM = use_rims_policy_LSTM a,
          self_use_rims_policy_GRU = use_rims_policy_GRU a,
          self_use_lstm_policy = use_lstm_policy a,
          self_recurrent_N = recurrent_N a,
          self_num_units = num_units a,
          self_tpdv = device,
          self_base = base,
          self_rnn = rnn,
          self_use_popart = use_popart a,
          self_v_out = v_out\<rparr>))))"

subsection \<open>\<open>forward\<close> and \<open>evaluate_actions\<close>\<close>

text \<open>
  The diagnostic statements on \<open>obs\<close> (\<open>print\<close>, \<open>torch.isnan\<close>, \<open>torch.sum\<close>) return nothing
  that the methods use and are left out.
\<close>

definition get_act :: "('a, 'z) r_actor_scheme \<Rightarrow> error + 'a act_layer" where
  \<comment> \<open>the attribute lookup \<open>self.act\<close>\<close>
  "get_act net = (case self_act net of None \<Rightarrow> Inl AttributeError | Some h \<Rightarrow> Inr h)"

definition R_Actor_forward ::
  "'a r_actor \<Rightarrow> 'a tensor \<Rightarrow> 'a tensor \<Rightarrow> 'a tensor \<Rightarrow> 'a tensor option \<Rightarrow> bool
    \<Rightarrow> error + ('a tensor \<times> 'a tensor \<times> 'a tensor)" where
  "R_Actor_forward net obs rnn_states masks available_actions deterministic =
     (let obs = to_tpdv net obs;
          rnn_states = to_tpdv net rnn_states;
          masks = to_tpdv net masks;
          available_actions = map_option (to_tpdv net) available_actions
      in bind_err (self_base net obs) (\<lambda>actor_features.
         bind_err (recurrent_stage net actor_features rnn_states masks)
           (\<lambda>(actor_features, rnn_states).
         bind_err (get_act net) (\<lambda>act.
         bind_err (act_forward act actor_features available_actions deterministic)
           (\<lambda>(actions, action_log_probs).
         Inr (actions, action_log_probs, rnn_states))))))"

definition R_Actor_evaluate_actions ::
  "'a r_actor \<Rightarrow> 'a tensor \<Rightarrow> 'a tensor \<Rightarrow> 'a tensor \<Rightarrow> 'a tensor \<Rightarrow> 'a tensor option
    \<Rightarrow> 'a tensor option \<Rightarrow> error + ('a tensor \<times> 'a tensor)" where
  "R_Actor_evaluate_actions net obs rnn_states action masks available_actions active_masks =
     (let obs = to_tpdv net obs;
          rnn_states = to_tpdv net rnn_states;
          action = to_tpdv net action;
          masks = to_tpdv net masks;
          available_actions = map_option (to_tpdv net) available_actions;
          active_masks = map_option (to_tpdv net) active_masks
      in bind_err (self_base net obs) (\<lambda>actor_features.
         bind_err (recurrent_stage net actor_features rnn_states masks)
           (\<lambda>(actor_features, rnn_states).
         bind_err (get_act net) (\<lambda>act.
         act_evaluate_actions act actor_features action available_actions
           (if self_use_policy_active_masks net then active_masks else None)))))"

definition R_Critic_forward ::
  "'a r_critic \<Rightarrow> 'a tensor \<Rightarrow> 'a tensor \<Rightarrow> 'a tensor \<Rightarrow> error + ('a tensor \<times> 'a tensor)" where
  "R_Critic_forward net obs rnn_states masks =
     (let obs = to_tpdv net obs;
          rnn_states = to_tpdv net rnn_states;
          masks = to_tpdv net masks
      in bind_err (self_base net obs) (\<lambda>critic_features.
         bind_err (recurrent_stage net critic_features rnn_states masks)
           (\<lambda>(critic_features, rnn_states).
         bind_err (self_v_out net critic_features) (\<lambda>values.
         Inr (values, rnn_states)))))"

subsection \<open>Example collaborators and configurations\<close>

text \<open>
  Collaborators whose constructors accept every argument: an encoder that returns its
  input, a cell that returns the two states it is given, a recurrent layer that returns
  its input and state, and a head that returns the features it is given (and, from
  \<open>evaluate_actions\<close>, the active masks it is given, or the action when it is given none).
\<close>

definition example_cell :: "int rnn_fn" where
  "example_cell x hs cs = Inr (hs, cs)"

definition example_layer :: "int rnn_fn" where
  "example_layer x hxs masks = Inr (x, hxs)"

definition example_gru_cell :: "int rnn_fn" where
  "example_gru_cell x hs cs = Inr (hs, hs)"

definition example_head :: "int act_layer" where
  "example_head =
     \<lparr>act_forward = (\<lambda>x available_actions deterministic. Inr (x, x)),
      act_evaluate_actions = (\<lambda>x action available_actions active_masks.
        Inr (x, case active_masks of None \<Rightarrow> action | Some m \<Rightarrow> m))\<rparr>"

definition example_collaborators :: "(int, nat list) collaborators" where
  "example_collaborators =
     \<lparr>get_shape_from_obs_space = Inr,
      base1 = Inr,
      MLPBase = (\<lambda>a obs_shape. Inr Inr),
      RIMCell = (\<lambda>input_size hidden_size num_units k rnn_cell input_value_size
                   comm_value_size.
                   Inr (if rnn_cell = ''LSTM'' then example_cell else example_gru_cell)),
      RNNLayer = (\<lambda>inputs_dim outputs_dim recurrent_N use_orthogonal. Inr example_layer),
      mpe_act = (\<lambda>action_space inputs_dim use_orthogonal gain. Inr example_head),
      multiwalker_act = (\<lambda>action_space inputs_dim use_orthogonal gain. Inr example_head),
      PopArt = (\<lambda>input_shape output_shape. Inr Inr),
      nn_Linear = (\<lambda>in_features out_features. Inr Inr)\<rparr>"

definition example_args :: args where
  "example_args =
     \<lparr>hidden_size = 4,
      env_name = ''MPE-simple.spread'',
      gain = 1,
      use_orthogonal = True,
      use_policy_active_masks = True,
      use_naive_recurrent_policy = False,
      use_recurrent_policy = True,
      use_rims_policy_LSTM = True,
      use_rims_policy_GRU = False,
      use_lstm_policy = False,
      recurrent_N = 1,
      num_units = 2,
      use_popart = False\<rparr>"

definition example_actor :: "int r_actor" where
  "example_actor =
     \<lparr>self_hidden_size = 4,
      self_use_orthogonal = True,
      self_use_naive_recurrent_policy = False,
      self_use_recurrent_policy = True,
      self_use_rims_policy_LSTM = True,
      self_use_rims_policy_GRU = False,
      self_use_lstm_policy = False,
      self_recurrent_N = 1,
      self_num_units = 2,
      self_tpdv = id,
      self_base = Inr,
      self_rnn = Some example_cell,
      self_env_name = ''MPE-simple.spread'',
      self_gain = 1,
      self_use_policy_active_masks = True,
      self_act = Some example_head\<rparr>"

definition example_critic :: "int r_critic" where
  "example_critic =
     \<lparr>self_hidden_size = 4,
      self_use_orthogonal = True,
      self_use_naive_recurrent_policy = False,
      self_use_recurrent_policy = True,
      self_use_rims_policy_LSTM = True,
      self_use_rims_policy_GRU = False,
      self_use_lstm_policy = False,
      self_recurrent_N = 1,
      self_num_units = 2,
      self_tpdv = id,
      self_base = Inr,
      self_rnn = Some example_cell,
      self_use_popart = False,
      self_v_out = Inr\<rparr>"

definition example_indivisible_args :: args where
  "example_indivisible_args = example_args\<lparr>hidden_size := 63, num_units := 4\<rparr>"

definition example_no_variant_args :: args where
  "example_no_variant_args = example_args\<lparr>use_rims_policy_LSTM := False\<rparr>"

definition example_all_variants_args :: args where
  "example_all_variants_args =
     example_args\<lparr>use_rims_policy_GRU := True, use_lstm_policy := True\<rparr>"

definition example_gru_and_lstm_args :: args where
  "example_gru_and_lstm_args =
     example_args\<lparr>use_rims_policy_LSTM := False, use_rims_policy_GRU := True,
       use_lstm_policy := True\<rparr>"

definition example_lstm_args :: args where
  "example_lstm_args =
     example_args\<lparr>use_rims_policy_LSTM := False, use_lstm_policy := True\<rparr>"

definition example_unmatched_args :: args where
  \<comment> \<open>an underscore where the recognised name has a dot\<close>
  "example_unmatched_args = example_args\<lparr>env_name := ''MPE-simple_spread''\<rparr>"

definition example_obs :: "int tensor" where
  "example_obs = \<lparr>shape = [2, 3], data = [1, 2, 3, 4, 5, 6]\<rparr>"

definition example_states :: "int tensor" where
  \<comment> \<open>a packed state of shape (batch, hidden_size) for \<open>hidden_size = 4\<close>\<close>
  "example_states = \<lparr>shape = [2, 4], data = [10, 11, 12, 13, 20, 21, 22, 23]\<rparr>"

definition example_wide_states :: "int tensor" where
  \<comment> \<open>two more columns than \<open>hidden_size = 4\<close>\<close>
  "example_wide_states =
     \<lparr>shape = [2, 6], data = [10, 11, 12, 13, 77, 78, 20, 21, 22, 23, 87, 88]\<rparr>"

definition example_odd_states :: "int tensor" where
  \<comment> \<open>a packed state of shape (batch, hidden_size) for \<open>hidden_size = 63\<close>\<close>
  "example_odd_states = \<lparr>shape = [1, 63], data = replicate 63 0\<rparr>"

definition example_short_states :: "int tensor" where
  \<comment> \<open>three columns fewer than \<open>hidden_size = 63\<close>\<close>
  "example_short_states = \<lparr>shape = [1, 60], data = replicate 60 0\<rparr>"

definition example_narrow_states :: "int tensor" where
  \<comment> \<open>two columns fewer than \<open>hidden_size = 4\<close>\<close>
  "example_narrow_states = \<lparr>shape = [2, 2], data = [10, 11, 20, 21]\<rparr>"

definition example_single_obs :: "int tensor" where
  "example_single_obs = \<lparr>shape = [1, 3], data = [1, 2, 3]\<rparr>"

definition example_single_masks :: "int tensor" where
  "example_single_masks = \<lparr>shape = [1, 1], data = [1]\<rparr>"

definition example_indivisible_actor :: "int r_actor" where
  "example_indivisible_actor =
     example_actor\<lparr>self_hidden_size := 63, self_num_units := 4\<rparr>"

definition example_masks :: "int tensor" where
  "example_masks = \<lparr>shape = [2, 1], data = [1, 0]\<rparr>"

section \<open>Properties\<close>

lemma bind_err_Inl [simp]: "bind_err (Inl e) f = Inl e"
  by (simp add: bind_err_def)

lemma bind_err_Inr [simp]: "bind_err (Inr x) f = f x"
  by (simp add: bind_err_def)

lemma bind_err_eq_Inr:
  "bind_err m f = Inr y \<longleftrightarrow> (\<exists>x. m = Inr x \<and> f x = Inr y)"
  by (cases m) simp_all

subsection \<open>Tensor operations\<close>



lemma index_cols_Inr:
  "index_cols t k = Inr s \<Longrightarrow>
     \<exists>b d rest. shape t = b # d # rest \<and> shape s = b # slice_stop k d # rest"
  by (auto simp: index_cols_def Let_def split: list.splits)




lemma take_rows_numeral [simp]:
  "take_rows (numeral n) w k xs = take k xs @ take_rows (pred_numeral n) w k (drop w xs)"
  by (simp add: numeral_eq_Suc)

lemma take_rows_1 [simp]: "take_rows 1 w k xs = take k xs"
  unfolding One_nat_def by simp


subsection \<open>The recurrent stage\<close>



lemma recurrent_stage_rims:
  "rims_path net \<Longrightarrow> recurrent_stage net features rnn_states masks
     = rims_branch net features rnn_states"
  by (auto simp: rims_path_def recurrent_stage_def)











lemma rims_inputs_indivisible:
  assumes "0 < self_hidden_size net" "0 < self_num_units net"
    and "\<not> self_num_units net dvd self_hidden_size net"
    and "0 < b" "shape rs = [b, nat (self_hidden_size net)]"
  shows "rims_inputs net f rs = Inl RuntimeError"
proof -
  let ?hs = "self_hidden_size net" and ?nu = "self_num_units net"
  have "slice_stop ?hs (nat ?hs) = nat ?hs" by (simp add: slice_stop_def)
  with assms(5) obtain sl where sl: "index_cols rs ?hs = Inr sl"
    and shp: "shape sl = [b, nat ?hs]"
    by (simp add: index_cols_def Let_def)
  from shp have b: "size0 sl = Inr b" and n: "numel sl = b * nat ?hs"
    by (simp_all add: size0_def numel_def)
  have "\<not> nat ?nu dvd nat ?hs"
    using assms(1,2,3) by (simp add: nat_dvd_iff)
  then have "nat ?hs mod nat ?nu \<noteq> 0" by (simp add: dvd_eq_mod_eq_0)
  with assms(4) have "(b * nat ?hs) mod (b * nat ?nu) \<noteq> 0"
    by (simp add: mult_mod_right [symmetric])
  with n have "view_infer sl [int b, ?nu] = Inl RuntimeError"
    by (simp add: view_infer_def Let_def)
  with sl b show ?thesis by (simp add: rims_inputs_def)
qed

subsection \<open>What construction returns\<close>

lemma R_Actor_init_Inr:
  assumes "R_Actor_init c a obs_space action_space device = Inr net"
  shows "\<exists>s. get_shape_from_obs_space c obs_space = Inr s
      \<and> build_base c a s = Inr (self_base net)
      \<and> build_rnn c a = Inr (self_rnn net)
      \<and> build_act c a action_space = Inr (self_act net)
      \<and> self_hidden_size net = hidden_size a \<and> self_num_units net = num_units a
      \<and> self_use_naive_recurrent_policy net = use_naive_recurrent_policy a
      \<and> self_use_recurrent_policy net = use_recurrent_policy a
      \<and> self_use_rims_policy_LSTM net = use_rims_policy_LSTM a
      \<and> self_use_rims_policy_GRU net = use_rims_policy_GRU a
      \<and> self_use_lstm_policy net = use_lstm_policy a"
  using assms by (auto simp: R_Actor_init_def bind_err_eq_Inr)

lemma build_act_Inr:
  assumes "build_act c a action_space = Inr h"
  shows "h = None \<longleftrightarrow>
    env_name a \<noteq> ''MPE-simple.spread'' \<and> env_name a \<noteq> ''SISL-multiwalker''"
  using assms by (auto simp: build_act_def bind_err_eq_Inr split: if_splits)

lemma get_act_None: "self_act net = None \<Longrightarrow> get_act net = Inl AttributeError"
  by (simp add: get_act_def)

lemma build_rnn_LSTM:
  assumes "use_naive_recurrent_policy a \<or> use_recurrent_policy a" "use_rims_policy_LSTM a"
  shows "build_rnn c a =
     (if num_units a = 0 then Inl ZeroDivisionError
      else bind_err (RIMCell c (hidden_size a) (hidden_size a div num_units a) (num_units a)
                       1 ''LSTM'' 64 (hidden_size a div num_units a))
             (\<lambda>rnn. Inr (Some rnn)))"
  using assms by (simp add: build_rnn_def floordiv_def)

lemma build_rnn_GRU:
  assumes "use_naive_recurrent_policy a \<or> use_recurrent_policy a"
    "\<not> use_rims_policy_LSTM a" "use_rims_policy_GRU a"
  shows "build_rnn c a =
     (if num_units a = 0 then Inl ZeroDivisionError
      else bind_err (RIMCell c (hidden_size a) (hidden_size a div num_units a) (num_units a)
                       1 ''GRU'' 64 (hidden_size a div num_units a))
             (\<lambda>rnn. Inr (Some rnn)))"
  using assms by (simp add: build_rnn_def floordiv_def)


subsection \<open>Unfolding the examples\<close>

lemmas example_defs =
  example_actor_def example_critic_def example_obs_def example_states_def
  example_wide_states_def example_odd_states_def example_masks_def example_cell_def
  example_gru_cell_def example_layer_def example_head_def example_collaborators_def
  example_args_def example_indivisible_args_def example_no_variant_args_def
  example_all_variants_args_def example_gru_and_lstm_args_def example_lstm_args_def
  example_unmatched_args_def example_short_states_def example_narrow_states_def
  example_single_obs_def example_single_masks_def example_indivisible_actor_def

lemmas tensor_defs =
  index_cols_def slice_stop_def size0_def view_infer_def numel_def unsqueeze1_def
  well_formed_def to_tpdv_def Let_def

lemmas stage_defs =
  rims_path_def recurrent_stage_def rims_branch_def rims_inputs_def rims_outputs_def
  get_rnn_def

lemmas init_defs =
  R_Actor_init_def R_Critic_init_def build_base_def build_rnn_def build_act_def
  build_v_out_def floordiv_def


subsection \<open>The claims\<close>



text \<open>
  C4. On the Multi-Module path the reset masks reach neither the cell nor the head: two
  calls of \<open>R_Actor.forward\<close>, of \<open>R_Actor.evaluate_actions\<close> or of \<open>R_Critic.forward\<close>
  that differ in the masks only return the same result.
\<close>

theorem rims_path_ignores_masks:
  fixes actor :: "'a r_actor" and critic :: "'a r_critic"
  shows "(rims_path actor \<longrightarrow>
            R_Actor_forward actor obs rnn_states masks available_actions deterministic
              = R_Actor_forward actor obs rnn_states masks' available_actions deterministic
          \<and> R_Actor_evaluate_actions actor obs rnn_states action masks available_actions
                active_masks
              = R_Actor_evaluate_actions actor obs rnn_states action masks' available_actions
                  active_masks)
       \<and> (rims_path critic \<longrightarrow>
            R_Critic_forward critic obs rnn_states masks
              = R_Critic_forward critic obs rnn_states masks')"
  by (simp add: R_Actor_forward_def R_Actor_evaluate_actions_def R_Critic_forward_def
      Let_def recurrent_stage_rims)

theorem rims_path_ignores_masks_witness:
  "rims_path example_actor \<and> rims_path example_critic
   \<and> R_Actor_forward example_actor example_obs example_states example_masks None True
       = R_Actor_forward example_actor example_obs example_states
           \<lparr>shape = [2, 1], data = [0, 0]\<rparr> None True
   \<and> R_Critic_forward example_critic example_obs example_states example_masks
       = R_Critic_forward example_critic example_obs example_states
           \<lparr>shape = [2, 1], data = [0, 0]\<rparr>"
  using rims_path_ignores_masks [where actor = example_actor and critic = example_critic
      and obs = example_obs and rnn_states = example_states and masks = example_masks
      and masks' = "\<lparr>shape = [2, 1], data = [0, 0]\<rparr>" and available_actions = None
      and deterministic = True]
  by (simp add: rims_path_def example_actor_def example_critic_def)

text \<open>
  C5. With both \<open>use_naive_recurrent_policy\<close> and \<open>use_recurrent_policy\<close> false,
  \<open>R_Actor.forward\<close> hands the encoder's features to the action head as they are and
  returns the hidden state it was given, converted by \<open>check(...).to(**self.tpdv)\<close> only:
  unchanged when that conversion is the identity.
\<close>

theorem disabled_recurrence_passthrough:
  assumes "\<not> self_use_naive_recurrent_policy net" and "\<not> self_use_recurrent_policy net"
  shows "R_Actor_forward net obs rnn_states masks available_actions deterministic =
       bind_err (self_base net (to_tpdv net obs)) (\<lambda>actor_features.
       bind_err (get_act net) (\<lambda>act.
       bind_err (act_forward act actor_features
                   (map_option (to_tpdv net) available_actions) deterministic)
         (\<lambda>(actions, action_log_probs).
       Inr (actions, action_log_probs, to_tpdv net rnn_states))))
    \<and> (\<forall>actions action_log_probs rnn_states'.
          R_Actor_forward net obs rnn_states masks available_actions deterministic
            = Inr (actions, action_log_probs, rnn_states')
          \<longrightarrow> rnn_states' = to_tpdv net rnn_states)
    \<and> (self_tpdv net = id \<longrightarrow> to_tpdv net rnn_states = rnn_states)"
proof -
  have fwd: "R_Actor_forward net obs rnn_states masks available_actions deterministic =
       bind_err (self_base net (to_tpdv net obs)) (\<lambda>actor_features.
       bind_err (get_act net) (\<lambda>act.
       bind_err (act_forward act actor_features
                   (map_option (to_tpdv net) available_actions) deterministic)
         (\<lambda>(actions, action_log_probs).
       Inr (actions, action_log_probs, to_tpdv net rnn_states))))"
    using assms by (simp add: R_Actor_forward_def recurrent_stage_def Let_def)
  have "rnn_states' = to_tpdv net rnn_states"
    if "R_Actor_forward net obs rnn_states masks available_actions deterministic
          = Inr (actions, action_log_probs, rnn_states')"
    for actions action_log_probs rnn_states'
    using that unfolding fwd by (auto simp: bind_err_eq_Inr)
  moreover have "self_tpdv net = id \<longrightarrow> to_tpdv net rnn_states = rnn_states"
    by (simp add: to_tpdv_def)
  ultimately show ?thesis using fwd by blast
qed

theorem disabled_recurrence_passthrough_witness:
  "\<not> self_use_naive_recurrent_policy (example_actor\<lparr>self_use_recurrent_policy := False\<rparr>)
   \<and> \<not> self_use_recurrent_policy (example_actor\<lparr>self_use_recurrent_policy := False\<rparr>)
   \<and> self_tpdv (example_actor\<lparr>self_use_recurrent_policy := False\<rparr>) = id
   \<and> R_Actor_forward (example_actor\<lparr>self_use_recurrent_policy := False\<rparr>)
        example_obs example_states example_masks None True
       = Inr (example_obs, example_obs, example_states)"
  using disabled_recurrence_passthrough
    [where net = "example_actor\<lparr>self_use_recurrent_policy := False\<rparr>"
       and obs = example_obs and rnn_states = example_states and masks = example_masks
       and available_actions = None and deterministic = True]
  by (simp add: example_defs to_tpdv_def get_act_def)

text \<open>
  C9. \<open>R_Actor.evaluate_actions\<close> hands the (converted) \<open>active_masks\<close> to the head's
  \<open>evaluate_actions\<close> when \<open>use_policy_active_masks\<close> is true, and \<open>None\<close> when it is false,
  whatever was supplied: with the flag false the result is that of a call without
  \<open>active_masks\<close>.
\<close>

theorem active_masks_passed_iff_enabled:
  shows "(self_use_policy_active_masks net \<longrightarrow>
            R_Actor_evaluate_actions net obs rnn_states action masks available_actions
                active_masks =
              bind_err (self_base net (to_tpdv net obs)) (\<lambda>actor_features.
              bind_err (recurrent_stage net actor_features (to_tpdv net rnn_states)
                          (to_tpdv net masks)) (\<lambda>(actor_features, rnn_states).
              bind_err (get_act net) (\<lambda>act.
              act_evaluate_actions act actor_features (to_tpdv net action)
                (map_option (to_tpdv net) available_actions)
                (map_option (to_tpdv net) active_masks)))))
       \<and> (\<not> self_use_policy_active_masks net \<longrightarrow>
            R_Actor_evaluate_actions net obs rnn_states action masks available_actions
                active_masks =
              bind_err (self_base net (to_tpdv net obs)) (\<lambda>actor_features.
              bind_err (recurrent_stage net actor_features (to_tpdv net rnn_states)
                          (to_tpdv net masks)) (\<lambda>(actor_features, rnn_states).
              bind_err (get_act net) (\<lambda>act.
              act_evaluate_actions act actor_features (to_tpdv net action)
                (map_option (to_tpdv net) available_actions) None)))
          \<and> R_Actor_evaluate_actions net obs rnn_states action masks available_actions
                active_masks =
              R_Actor_evaluate_actions net obs rnn_states action masks available_actions
                None)"
  by (simp add: R_Actor_evaluate_actions_def Let_def)

theorem active_masks_passed_iff_enabled_witness:
  "self_use_policy_active_masks example_actor
   \<and> R_Actor_evaluate_actions example_actor example_obs example_states example_obs
        example_masks None (Some example_masks)
       = Inr (\<lparr>shape = [2, 4], data = [10, 11, 12, 13, 20, 21, 22, 23]\<rparr>, example_masks)
   \<and> \<not> self_use_policy_active_masks (example_actor\<lparr>self_use_policy_active_masks := False\<rparr>)
   \<and> R_Actor_evaluate_actions (example_actor\<lparr>self_use_policy_active_masks := False\<rparr>)
        example_obs example_states example_obs example_masks None (Some example_masks)
       = Inr (\<lparr>shape = [2, 4], data = [10, 11, 12, 13, 20, 21, 22, 23]\<rparr>, example_obs)"
  using active_masks_passed_iff_enabled
    [where net = example_actor and obs = example_obs and rnn_states = example_states
       and action = example_obs and masks = example_masks and available_actions = None
       and active_masks = "Some example_masks"]
    active_masks_passed_iff_enabled
    [where net = "example_actor\<lparr>self_use_policy_active_masks := False\<rparr>"
       and obs = example_obs and rnn_states = example_states
       and action = example_obs and masks = example_masks and available_actions = None
       and active_masks = "Some example_masks"]
  by (simp add: example_defs tensor_defs stage_defs get_act_def)




text \<open>
  C7. The \<open>act\<close> attribute is set exactly when \<open>env_name\<close> equals \<open>'MPE-simple.spread'\<close>
  or \<open>'SISL-multiwalker'\<close>; for any other name construction succeeds whenever the steps
  before the head succeed, and leaves the attribute unset; every later call of \<open>forward\<close>
  or \<open>evaluate_actions\<close> then fails, with \<open>AttributeError\<close> when the encoder and the
  recurrent stage have succeeded.
\<close>

theorem unmatched_env_name_leaves_head_unset:
  fixes actor :: "'a r_actor"
  shows "(R_Actor_init c a obs_space action_space device = Inr net \<longrightarrow>
            (self_act net = None \<longleftrightarrow>
               env_name a \<noteq> ''MPE-simple.spread'' \<and> env_name a \<noteq> ''SISL-multiwalker''))
       \<and> (env_name a \<noteq> ''MPE-simple.spread'' \<and> env_name a \<noteq> ''SISL-multiwalker''
            \<and> get_shape_from_obs_space c obs_space = Inr s
            \<and> build_base c a s = Inr base \<and> build_rnn c a = Inr rnn
          \<longrightarrow> (\<exists>net'. R_Actor_init c a obs_space action_space device = Inr net'
                 \<and> self_act net' = None))
       \<and> (self_act actor = None \<longrightarrow>
            isl (R_Actor_forward actor obs rnn_states masks available_actions deterministic)
            \<and> isl (R_Actor_evaluate_actions actor obs rnn_states action masks
                     available_actions active_masks)
            \<and> (\<forall>features out.
                  self_base actor (to_tpdv actor obs) = Inr features
                  \<and> recurrent_stage actor features (to_tpdv actor rnn_states)
                      (to_tpdv actor masks) = Inr out
                  \<longrightarrow> R_Actor_forward actor obs rnn_states masks available_actions
                        deterministic = Inl AttributeError
                    \<and> R_Actor_evaluate_actions actor obs rnn_states action masks
                        available_actions active_masks = Inl AttributeError))"
proof (intro conjI impI)
  assume "R_Actor_init c a obs_space action_space device = Inr net"
  from R_Actor_init_Inr [OF this] have "build_act c a action_space = Inr (self_act net)"
    by auto
  then show "self_act net = None \<longleftrightarrow>
      env_name a \<noteq> ''MPE-simple.spread'' \<and> env_name a \<noteq> ''SISL-multiwalker''"
    by (rule build_act_Inr)
next
  assume "env_name a \<noteq> ''MPE-simple.spread'' \<and> env_name a \<noteq> ''SISL-multiwalker''
    \<and> get_shape_from_obs_space c obs_space = Inr s
    \<and> build_base c a s = Inr base \<and> build_rnn c a = Inr rnn"
  then show "\<exists>net'. R_Actor_init c a obs_space action_space device = Inr net'
      \<and> self_act net' = None"
    by (simp add: R_Actor_init_def build_act_def)
next
  assume n: "self_act actor = None"
  show "isl (R_Actor_forward actor obs rnn_states masks available_actions deterministic)"
    by (simp add: R_Actor_forward_def Let_def get_act_None [OF n] bind_err_def
        split: sum.splits prod.splits)
  show "isl (R_Actor_evaluate_actions actor obs rnn_states action masks
      available_actions active_masks)"
    by (simp add: R_Actor_evaluate_actions_def Let_def get_act_None [OF n] bind_err_def
        split: sum.splits prod.splits)
  show "\<forall>features out.
      self_base actor (to_tpdv actor obs) = Inr features
      \<and> recurrent_stage actor features (to_tpdv actor rnn_states)
          (to_tpdv actor masks) = Inr out
      \<longrightarrow> R_Actor_forward actor obs rnn_states masks available_actions
            deterministic = Inl AttributeError
        \<and> R_Actor_evaluate_actions actor obs rnn_states action masks
            available_actions active_masks = Inl AttributeError"
    by (auto simp: R_Actor_forward_def R_Actor_evaluate_actions_def Let_def
        get_act_None [OF n])
qed

theorem unmatched_env_name_leaves_head_unset_witness:
  "env_name example_unmatched_args \<noteq> ''MPE-simple.spread''
   \<and> env_name example_unmatched_args \<noteq> ''SISL-multiwalker''
   \<and> get_shape_from_obs_space example_collaborators [10] = Inr [10]
   \<and> build_base example_collaborators example_unmatched_args [10] = Inr Inr
   \<and> build_rnn example_collaborators example_unmatched_args = Inr (Some example_cell)
   \<and> R_Actor_init example_collaborators example_unmatched_args [10] [5] id
       = Inr (example_actor\<lparr>self_env_name := ''MPE-simple_spread'', self_act := None\<rparr>)
   \<and> self_act (example_actor\<lparr>self_act := None\<rparr>) = None
   \<and> self_base (example_actor\<lparr>self_act := None\<rparr>)
        (to_tpdv (example_actor\<lparr>self_act := None\<rparr>) example_obs) = Inr example_obs
   \<and> recurrent_stage (example_actor\<lparr>self_act := None\<rparr>) example_obs
        (to_tpdv (example_actor\<lparr>self_act := None\<rparr>) example_states)
        (to_tpdv (example_actor\<lparr>self_act := None\<rparr>) example_masks)
       = Inr (\<lparr>shape = [2, 4], data = [10, 11, 12, 13, 20, 21, 22, 23]\<rparr>,
              \<lparr>shape = [2, 1, 4], data = [10, 11, 12, 13, 20, 21, 22, 23]\<rparr>)
   \<and> R_Actor_forward (example_actor\<lparr>self_act := None\<rparr>) example_obs example_states
        example_masks None True = Inl AttributeError
   \<and> R_Actor_evaluate_actions (example_actor\<lparr>self_act := None\<rparr>) example_obs
        example_states example_obs example_masks None None = Inl AttributeError"
  using unmatched_env_name_leaves_head_unset
    [where c = example_collaborators and a = example_unmatched_args
       and obs_space = "[10]" and action_space = "[5]" and device = id
       and net = "example_actor\<lparr>self_env_name := ''MPE-simple_spread'', self_act := None\<rparr>"
       and s = "[10]" and base = Inr and rnn = "Some example_cell"
       and actor = "example_actor\<lparr>self_act := None\<rparr>"
       and obs = example_obs and rnn_states = example_states and masks = example_masks
       and available_actions = None and deterministic = True and action = example_obs
       and active_masks = None]
  by (simp add: example_defs tensor_defs stage_defs R_Actor_init_def build_base_def
      build_rnn_def build_act_def floordiv_def)



text \<open>
  C2, as the code has it. With a Multi-Module variant selected, construction makes no
  divisibility check: it fails with \<open>ZeroDivisionError\<close> when \<open>num_units\<close> is zero, and
  otherwise hands \<open>hidden_size // num_units\<close> to the \<open>RIMCell\<close> constructor and succeeds or
  fails as that constructor does. When \<open>num_units\<close> does not divide \<open>hidden_size\<close> (both
  positive), the failure comes at the first call on a packed state of shape
  \<open>(batch, hidden_size)\<close> with a nonempty batch: the view raises.
\<close>

theorem multi_module_floor_division:
  assumes "use_naive_recurrent_policy a \<or> use_recurrent_policy a"
    and "use_rims_policy_LSTM a \<or> use_rims_policy_GRU a"
  shows "build_rnn c a =
       (if num_units a = 0 then Inl ZeroDivisionError
        else bind_err (RIMCell c (hidden_size a) (hidden_size a div num_units a)
                         (num_units a) 1
                         (if use_rims_policy_LSTM a then ''LSTM'' else ''GRU'') 64
                         (hidden_size a div num_units a))
               (\<lambda>rnn. Inr (Some rnn)))
    \<and> (rims_path net \<and> self_hidden_size net = hidden_size a
          \<and> self_num_units net = num_units a
          \<and> 0 < hidden_size a \<and> 0 < num_units a \<and> \<not> num_units a dvd hidden_size a
          \<and> 0 < b \<and> shape rnn_states = [b, nat (hidden_size a)]
        \<longrightarrow> recurrent_stage net features rnn_states masks = Inl RuntimeError)"
proof (intro conjI impI)
  show "build_rnn c a =
       (if num_units a = 0 then Inl ZeroDivisionError
        else bind_err (RIMCell c (hidden_size a) (hidden_size a div num_units a)
                         (num_units a) 1
                         (if use_rims_policy_LSTM a then ''LSTM'' else ''GRU'') 64
                         (hidden_size a div num_units a))
               (\<lambda>rnn. Inr (Some rnn)))"
    using assms build_rnn_LSTM [OF assms(1), where c = c]
      build_rnn_GRU [OF assms(1), where c = c]
    by (cases "use_rims_policy_LSTM a") simp_all
next
  assume h: "rims_path net \<and> self_hidden_size net = hidden_size a
          \<and> self_num_units net = num_units a
          \<and> 0 < hidden_size a \<and> 0 < num_units a \<and> \<not> num_units a dvd hidden_size a
          \<and> 0 < b \<and> shape rnn_states = [b, nat (hidden_size a)]"
  then have "rims_inputs net features rnn_states = Inl RuntimeError"
    using rims_inputs_indivisible [of net b rnn_states features] by simp
  with h show "recurrent_stage net features rnn_states masks = Inl RuntimeError"
    by (simp add: recurrent_stage_rims rims_branch_def)
qed

theorem multi_module_floor_division_witness:
  "use_recurrent_policy example_indivisible_args
   \<and> use_rims_policy_LSTM example_indivisible_args
   \<and> build_rnn example_collaborators example_indivisible_args = Inr (Some example_cell)
   \<and> RIMCell example_collaborators 63 15 4 1 ''LSTM'' 64 15 = Inr example_cell
   \<and> hidden_size example_indivisible_args div num_units example_indivisible_args = 15
   \<and> rims_path (example_actor\<lparr>self_hidden_size := 63, self_num_units := 4\<rparr>)
   \<and> \<not> num_units example_indivisible_args dvd hidden_size example_indivisible_args
   \<and> shape example_odd_states = [1, nat (hidden_size example_indivisible_args)]
   \<and> recurrent_stage (example_actor\<lparr>self_hidden_size := 63, self_num_units := 4\<rparr>)
        example_obs example_odd_states example_masks = Inl RuntimeError"
  using multi_module_floor_division
    [where c = example_collaborators and a = example_indivisible_args
       and net = "example_actor\<lparr>self_hidden_size := 63, self_num_units := 4\<rparr>"
       and b = 1 and rnn_states = example_odd_states and features = example_obs
       and masks = example_masks]
  by (simp add: example_defs rims_path_def)

text \<open>
  C2, as stated, fails: with \<open>hidden_size = 63\<close>, \<open>num_units = 4\<close> and a cell constructor
  that accepts its arguments, both constructions succeed.
\<close>

theorem indivisible_construction_counterexample:
  "\<not> isl (R_Actor_init example_collaborators example_indivisible_args [10] [5] id)
   \<and> \<not> isl (R_Critic_init example_collaborators example_indivisible_args [10] id)
   \<and> hidden_size example_indivisible_args = 63
   \<and> num_units example_indivisible_args = 4
   \<and> use_recurrent_policy example_indivisible_args
   \<and> use_rims_policy_LSTM example_indivisible_args"
  by (simp add: example_defs init_defs)

text \<open>
  C3, as the code has it. When a recurrent policy is requested and no variant flag is set,
  no cell is built and no error is raised: construction succeeds whenever the encoder and
  the head are built, the \<open>rnn\<close> attribute stays unset and the recurrent stage returns
  the features and the hidden state as they are. When several variant flags are set, the
  cell built is the one that the first set flag alone builds.
\<close>

theorem unvalidated_variant_selection:
  assumes "use_naive_recurrent_policy a \<or> use_recurrent_policy a"
  shows "(\<not> use_rims_policy_LSTM a \<and> \<not> use_rims_policy_GRU a \<and> \<not> use_lstm_policy a \<longrightarrow>
            build_rnn c a = Inr None
            \<and> (get_shape_from_obs_space c obs_space = Inr s \<and> build_base c a s = Inr base
                 \<and> build_act c a action_space = Inr act
               \<longrightarrow> (\<exists>net. R_Actor_init c a obs_space action_space device = Inr net
                      \<and> self_rnn net = None
                      \<and> (\<forall>f rs m. recurrent_stage net f rs m = Inr (f, rs))))
            \<and> (get_shape_from_obs_space c obs_space = Inr s \<and> build_base c a s = Inr base
                 \<and> build_v_out c a = Inr v_out
               \<longrightarrow> (\<exists>net. R_Critic_init c a obs_space device = Inr net
                      \<and> self_rnn net = None
                      \<and> (\<forall>f rs m. recurrent_stage net f rs m = Inr (f, rs)))))
       \<and> (use_rims_policy_LSTM a \<longrightarrow>
            build_rnn c a
              = build_rnn c (a\<lparr>use_rims_policy_GRU := False, use_lstm_policy := False\<rparr>))
       \<and> (\<not> use_rims_policy_LSTM a \<and> use_rims_policy_GRU a \<longrightarrow>
            build_rnn c a = build_rnn c (a\<lparr>use_lstm_policy := False\<rparr>))"
proof (intro conjI impI)
  assume z: "\<not> use_rims_policy_LSTM a \<and> \<not> use_rims_policy_GRU a \<and> \<not> use_lstm_policy a"
  then show none: "build_rnn c a = Inr None"
    by (simp add: build_rnn_def)
  {
    assume "get_shape_from_obs_space c obs_space = Inr s \<and> build_base c a s = Inr base
      \<and> build_act c a action_space = Inr act"
    with none z show "\<exists>net. R_Actor_init c a obs_space action_space device = Inr net
        \<and> self_rnn net = None \<and> (\<forall>f rs m. recurrent_stage net f rs m = Inr (f, rs))"
      by (simp add: R_Actor_init_def recurrent_stage_def)
  }
  {
    assume "get_shape_from_obs_space c obs_space = Inr s \<and> build_base c a s = Inr base
      \<and> build_v_out c a = Inr v_out"
    with none z show "\<exists>net. R_Critic_init c a obs_space device = Inr net
        \<and> self_rnn net = None \<and> (\<forall>f rs m. recurrent_stage net f rs m = Inr (f, rs))"
      by (simp add: R_Critic_init_def recurrent_stage_def)
  }
next
  assume "use_rims_policy_LSTM a"
  with assms show "build_rnn c a
      = build_rnn c (a\<lparr>use_rims_policy_GRU := False, use_lstm_policy := False\<rparr>)"
    by (simp add: build_rnn_def)
next
  assume "\<not> use_rims_policy_LSTM a \<and> use_rims_policy_GRU a"
  with assms show "build_rnn c a = build_rnn c (a\<lparr>use_lstm_policy := False\<rparr>)"
    by (simp add: build_rnn_def)
qed

theorem unvalidated_variant_selection_witness:
  "use_recurrent_policy example_no_variant_args
   \<and> \<not> use_rims_policy_LSTM example_no_variant_args
   \<and> \<not> use_rims_policy_GRU example_no_variant_args
   \<and> \<not> use_lstm_policy example_no_variant_args
   \<and> get_shape_from_obs_space example_collaborators [10] = Inr [10]
   \<and> build_base example_collaborators example_no_variant_args [10] = Inr Inr
   \<and> build_act example_collaborators example_no_variant_args [5] = Inr (Some example_head)
   \<and> build_v_out example_collaborators example_no_variant_args = Inr Inr
   \<and> build_rnn example_collaborators example_no_variant_args = Inr None
   \<and> use_recurrent_policy example_all_variants_args
   \<and> use_rims_policy_LSTM example_all_variants_args
   \<and> build_rnn example_collaborators example_all_variants_args = Inr (Some example_cell)
   \<and> use_recurrent_policy example_gru_and_lstm_args
   \<and> \<not> use_rims_policy_LSTM example_gru_and_lstm_args
   \<and> use_rims_policy_GRU example_gru_and_lstm_args
   \<and> build_rnn example_collaborators example_gru_and_lstm_args
       = Inr (Some example_gru_cell)"
  using unvalidated_variant_selection
    [where c = example_collaborators and a = example_no_variant_args
       and obs_space = "[10]" and action_space = "[5]" and device = id
       and s = "[10]" and base = Inr and act = "Some example_head" and v_out = Inr]
    unvalidated_variant_selection
    [where c = example_collaborators and a = example_all_variants_args]
    unvalidated_variant_selection
    [where c = example_collaborators and a = example_gru_and_lstm_args]
  by (simp add: example_defs init_defs)

text \<open>
  C3, as stated, fails: with a recurrent policy requested, construction of the actor and
  of the critic succeeds both with no variant flag set and with all three set.
\<close>

theorem invalid_variants_construction_counterexample:
  "use_recurrent_policy example_no_variant_args
   \<and> \<not> use_rims_policy_LSTM example_no_variant_args
   \<and> \<not> use_rims_policy_GRU example_no_variant_args
   \<and> \<not> use_lstm_policy example_no_variant_args
   \<and> \<not> isl (R_Actor_init example_collaborators example_no_variant_args [10] [5] id)
   \<and> \<not> isl (R_Critic_init example_collaborators example_no_variant_args [10] id)
   \<and> use_recurrent_policy example_all_variants_args
   \<and> use_rims_policy_LSTM example_all_variants_args
   \<and> use_rims_policy_GRU example_all_variants_args
   \<and> use_lstm_policy example_all_variants_args
   \<and> \<not> isl (R_Actor_init example_collaborators example_all_variants_args [10] [5] id)
   \<and> \<not> isl (R_Critic_init example_collaborators example_all_variants_args [10] id)"
  by (simp add: example_defs init_defs)

end
